theory Spec2Isabelle
  imports Main
begin

section \<open>JavaScript values\<close>

text \<open>
  The debug listener of \<^verbatim>\<open>client/src/adt/debugger/debugListener.ts\<close> handles
  errors of type \<^verbatim>\<open>any\<close>. The values it can inspect are modelled by plain data:
  \<^verbatim>\<open>undefined\<close>, \<^verbatim>\<open>null\<close>, booleans, integral numbers, strings,
  \<^verbatim>\<open>Error\<close> instances (name and message) and objects with data properties.
  Objects with accessors, proxies, symbols and functions as property values are outside
  this universe; on the values inside it a template literal never throws.
\<close>

datatype jsval =
    JUndefined
  | JNull
  | JBool bool
  | JNum int
  | JStr string
  | JError string string
  | JObj "(string \<times> jsval) list"

text \<open>A thrown value, or a normal result: \<open>Inl\<close> is the exception.\<close>

type_synonym 'a result = "jsval + 'a"

text \<open>JavaScript's \<^verbatim>\<open>ToBoolean\<close>, as used by \<^verbatim>\<open>!x\<close>, \<^verbatim>\<open>x || y\<close> and \<^verbatim>\<open>if (x)\<close>.\<close>

fun truthy :: "jsval \<Rightarrow> bool" where
  "truthy JUndefined = False"
| "truthy JNull = False"
| "truthy (JBool b) = b"
| "truthy (JNum n) = (n \<noteq> 0)"
| "truthy (JStr s) = (s \<noteq> [])"
| "truthy (JError n m) = True"
| "truthy (JObj ps) = True"

definition TypeError :: "string \<Rightarrow> jsval" where
  "TypeError m = JError ''TypeError'' m"

text \<open>
  Property read \<^verbatim>\<open>v.k\<close>: a \<^verbatim>\<open>TypeError\<close> on \<^verbatim>\<open>undefined\<close> and
  \<^verbatim>\<open>null\<close>, the stored value on an object, \<^verbatim>\<open>undefined\<close> for a key that is
  not there. None of the keys this module reads is a built-in property of a boolean,
  number or string.
\<close>

fun get_prop :: "jsval \<Rightarrow> string \<Rightarrow> jsval result" where
  "get_prop JUndefined k = Inl (TypeError ''Cannot read properties of undefined'')"
| "get_prop JNull k = Inl (TypeError ''Cannot read properties of null'')"
| "get_prop (JObj ps) k = Inr (case map_of ps k of None \<Rightarrow> JUndefined | Some v \<Rightarrow> v)"
| "get_prop (JError n m) k =
     Inr (if k = ''message'' then JStr m else if k = ''name'' then JStr n else JUndefined)"
| "get_prop v k = Inr JUndefined"

text \<open>Optional chaining \<^verbatim>\<open>v?.k\<close> and \<^verbatim>\<open>v?.[k]\<close>: never throws.\<close>

definition opt_prop :: "jsval \<Rightarrow> string \<Rightarrow> jsval" where
  "opt_prop v k = (case get_prop v k of Inl e \<Rightarrow> JUndefined | Inr x \<Rightarrow> x)"

text \<open>Decimal digits of a natural number, for \<^verbatim>\<open>ToString\<close> of a number.\<close>

fun digits :: "nat \<Rightarrow> string" where
  "digits n =
     (if n < 10 then [char_of (48 + n)]
      else digits (n div 10) @ [char_of (48 + n mod 10)])"

text \<open>
  \<^verbatim>\<open>ToString\<close>, as a template literal \<^verbatim>\<open>`${v}`\<close> applies it. A number is
  printed in decimal digits, as JavaScript prints an integer below \<open>10 ^ 21\<close>.
\<close>

fun to_string :: "jsval \<Rightarrow> string" where
  "to_string JUndefined = ''undefined''"
| "to_string JNull = ''null''"
| "to_string (JBool b) = (if b then ''true'' else ''false'')"
| "to_string (JNum n) = (if n < 0 then ''-'' @ digits (nat (- n)) else digits (nat n))"
| "to_string (JStr s) = s"
| "to_string (JError n m) = (if m = [] then n else if n = [] then m else n @ '': '' @ m)"
| "to_string (JObj ps) = ''[object Object]''"

text \<open>
  \<^verbatim>\<open>s.match(/pat/)\<close> for a pattern without metacharacters: does \<open>pat\<close> occur in
  \<open>s\<close>?
\<close>

fun has_match :: "string \<Rightarrow> string \<Rightarrow> bool" where
  "has_match pat [] = (pat = [])"
| "has_match pat (c # cs) = (take (length pat) (c # cs) = pat \<or> has_match pat cs)"

section \<open>The conflict classifier\<close>

definition ATTACHTIMEOUT :: string where
  "ATTACHTIMEOUT = ''autoAttachTimeout''"

definition SUBTYPE :: string where
  "SUBTYPE = ''com.sap.adt.communicationFramework.subType''"

text \<open>
  The reads of an error's payload: \<^verbatim>\<open>err?.properties?.["com.sap.adt.communicationFramework.subType"]\<close>,
  \<^verbatim>\<open>err?.properties?.conflictText\<close> and \<^verbatim>\<open>err.response.body\<close>; only the last can throw.
\<close>

definition subType_of :: "jsval \<Rightarrow> jsval" where
  "subType_of err = opt_prop (opt_prop err ''properties'') SUBTYPE"

definition conflictText_of :: "jsval \<Rightarrow> jsval" where
  "conflictText_of err = opt_prop (opt_prop err ''properties'') ''conflictText''"

definition response_body :: "jsval \<Rightarrow> jsval result" where
  "response_body err =
     (case get_prop err ''response'' of
        Inl e \<Rightarrow> Inl e
      | Inr response \<Rightarrow> get_prop response ''body'')"

text \<open>
  The body of the \<^verbatim>\<open>try\<close> block of \<^verbatim>\<open>errorType\<close>:
  \<^verbatim>\<open>
    const exceptionType = err?.properties?.["com.sap.adt.communicationFramework.subType"]
    if (!exceptionType && `${err.response.body}`.match(/Connection timed out/)) return ATTACHTIMEOUT
    return exceptionType
  \<close>
\<close>

definition errorType_try :: "jsval \<Rightarrow> jsval result" where
  "errorType_try err =
     (let exceptionType = subType_of err in
      if \<not> truthy exceptionType then
        (case response_body err of
           Inl e \<Rightarrow> Inl e
         | Inr body \<Rightarrow>
             if has_match ''Connection timed out'' (to_string body)
             then Inr (JStr ATTACHTIMEOUT)
             else Inr exceptionType)
      else Inr exceptionType)"

text \<open>
  \<^verbatim>\<open>errorType\<close>: the \<^verbatim>\<open>try\<close> block with its empty \<^verbatim>\<open>catch\<close>; control then
  falls off the end of the function, which returns \<^verbatim>\<open>undefined\<close>.
\<close>

definition errorType :: "jsval \<Rightarrow> jsval result" where
  "errorType err = (case errorType_try err of Inl error \<Rightarrow> Inr JUndefined | Inr v \<Rightarrow> Inr v)"

text \<open>
  \<^verbatim>\<open>isConflictError = (e) => (errorType(e) || "").match(/conflictNotification|conflictDetected/)\<close>,
  read for its truth value. A truthy classification that is not a string has no
  \<^verbatim>\<open>match\<close> method, and the call throws.
\<close>

definition isConflictError :: "jsval \<Rightarrow> bool result" where
  "isConflictError e =
     (case errorType e of
        Inl t \<Rightarrow> Inl t
      | Inr v \<Rightarrow>
          (case (if truthy v then v else JStr []) of
             JStr s \<Rightarrow> Inr (has_match ''conflictNotification'' s \<or> has_match ''conflictDetected'' s)
           | _ \<Rightarrow> Inl (TypeError ''match is not a function'')))"

section \<open>The listener session\<close>

datatype mode = Terminal | User

text \<open>
  The remote calls of the ADT client that the listener issues. Every listener call
  also carries the terminal id, the IDE id and the user name of the instance, which
  never change; the event keeps the debugging mode, the one argument that differs
  between call sites.
\<close>

datatype rcall =
    Listen mode
  | Listeners mode
  | DeleteListener mode
  | Attach mode string
  | SaveSettings
  | DropSession
  | Logout
  | CloneLogout

datatype dap_event = StoppedEvent string nat | TerminatedEvent

text \<open>
  What the instance does to the outside world, in order: a remote call (logged with
  the values the flags \<^verbatim>\<open>active\<close> and \<^verbatim>\<open>attached\<close> have when the call is
  issued, which is what any other task sees while the call is pending), a prompt of
  the UI, an error shown by the UI, an event fired to the debug adapter.
\<close>

datatype event =
    Call rcall bool bool
  | Confirmator string
  | ShowError jsval
  | Fire dap_event

record session =
  connId :: string
  sessionNumber :: nat
  terminalId :: string
  ideId :: string
  username :: string
  dmode :: mode
  active :: bool
  attached :: bool
  killed :: bool
  trace :: "event list"

definition THREADID :: nat where
  "THREADID = 1"

text \<open>
  The functions of the module that are not in the listener's file: \<^verbatim>\<open>isAdtError\<close> of
  the ADT client library and \<^verbatim>\<open>caughtToString\<close> of the extension's \<^verbatim>\<open>lib\<close>. They are
  parameters of the model. Calls of \<^verbatim>\<open>log\<close> are not recorded.
\<close>

record deps =
  isAdtError :: "jsval \<Rightarrow> bool"
  caughtToString :: "jsval \<Rightarrow> string"

subsection \<open>Construction and the session counters\<close>

text \<open>
  \<^verbatim>\<open>const sessionNumbers = new Map<string, number>()\<close> is module state; the
  constructor reads and updates it:
  \<^verbatim>\<open>
    this.sessionNumber = (sessionNumbers.get(connId) || 0) + 1
    sessionNumbers.set(connId, this.sessionNumber)
    this.ideId = getOrCreateIdeId()
    this.mode = terminalMode ? "terminal" : "user"
    if (!this.username) this.username = _client.username.toUpperCase()
  \<close>
  The counter is a natural number here; a JavaScript number holds it exactly below
  \<open>2 ^ 53\<close>. The IDE id and the upper-cased user name of the client are arguments.
\<close>

record ctor_args =
  arg_connId :: string
  arg_client_username :: string
  arg_terminalId :: string
  arg_username :: string
  arg_terminalMode :: bool
  arg_ideId :: string

text \<open>\<^verbatim>\<open>sessionNumbers.get(connId) || 0\<close>\<close>

definition counter_of :: "(string \<rightharpoonup> nat) \<Rightarrow> string \<Rightarrow> nat" where
  "counter_of sessionNumbers c = (case sessionNumbers c of None \<Rightarrow> 0 | Some k \<Rightarrow> k)"

definition new_DebugListener ::
  "(string \<rightharpoonup> nat) \<Rightarrow> ctor_args \<Rightarrow> session \<times> (string \<rightharpoonup> nat)" where
  "new_DebugListener sessionNumbers a =
     (let n = counter_of sessionNumbers (arg_connId a) + 1 in
      (\<lparr>connId = arg_connId a,
        sessionNumber = n,
        terminalId = arg_terminalId a,
        ideId = arg_ideId a,
        username = (if arg_username a = [] then arg_client_username a else arg_username a),
        dmode = (if arg_terminalMode a then Terminal else User),
        active = False,
        attached = False,
        killed = False,
        trace = []\<rparr>,
       sessionNumbers(arg_connId a \<mapsto> n)))"

text \<open>A sequence of constructions, threading the counters.\<close>

fun constructions ::
  "(string \<rightharpoonup> nat) \<Rightarrow> ctor_args list \<Rightarrow> session list \<times> (string \<rightharpoonup> nat)" where
  "constructions m [] = ([], m)"
| "constructions m (a # as) =
     (case new_DebugListener m a of
        (s, m') \<Rightarrow> (case constructions m' as of (ss, m'') \<Rightarrow> (s # ss, m'')))"

subsection \<open>Effects\<close>

definition issue :: "rcall \<Rightarrow> session \<Rightarrow> session" where
  "issue c s = s\<lparr>trace := trace s @ [Call c (active s) (attached s)]\<rparr>"

definition emit :: "event \<Rightarrow> session \<Rightarrow> session" where
  "emit e s = s\<lparr>trace := trace s @ [e]\<rparr>"

text \<open>The events a call added: the trace of the final state after that of the initial one.\<close>

definition events_since :: "session \<Rightarrow> session \<Rightarrow> event list" where
  "events_since s s' = drop (length (trace s)) (trace s')"

fun calls :: "event list \<Rightarrow> rcall list" where
  "calls [] = []"
| "calls (Call c a b # es) = c # calls es"
| "calls (e # es) = calls es"

fun fired :: "event list \<Rightarrow> dap_event list" where
  "fired [] = []"
| "fired (Fire d # es) = d # fired es"
| "fired (e # es) = fired es"

definition Disconnected :: jsval where
  "Disconnected = JError ''Error'' ''Disconnected''"

text \<open>
  The getter \<^verbatim>\<open>client\<close>:
  \<^verbatim>\<open>if (this.killed) throw new Error("Disconnected"); return this._client\<close>.
\<close>

definition client :: "session \<Rightarrow> unit result" where
  "client s = (if killed s then Inl Disconnected else Inr ())"

subsection \<open>Teardown, listen and the arbitration probe\<close>

text \<open>
  \<^verbatim>\<open>
    private async stopListener(norestart = true) {
        if (norestart) {
            this.active = false
        }
        const c = this._client.statelessClone
        return c.debuggerDeleteListener(this.mode, this.terminalId, this.ideId, this.username)
    }
  \<close>
  \<^verbatim>\<open>stopListener\<close> reads \<^verbatim>\<open>this._client\<close>, not the guarded getter. Its argument
  \<open>del\<close> is how the delete-listener call settles. A remote call of the client
  returns a promise: it settles as given and does not throw when it is issued.
\<close>

definition stopListener :: "bool \<Rightarrow> unit result \<Rightarrow> session \<Rightarrow> unit result \<times> session" where
  "stopListener norestart del s =
     (let s1 = (if norestart then s\<lparr>active := False\<rparr> else s)
      in (del, issue (DeleteListener (dmode s1)) s1))"

text \<open>
  What the long poll returns: nothing (a falsy value), a listener error (what
  \<^verbatim>\<open>isDebugListenerError\<close> of the client library accepts), or a debuggee with its id.
\<close>

datatype listen_result = LNothing | LListenerError | LDebuggee string

text \<open>
  \<^verbatim>\<open>
    private debuggerListen() {
        return this.client.statelessClone.debuggerListen(this.mode, this.terminalId, this.ideId, this.username)
    }
  \<close>
\<close>

definition debuggerListen ::
  "listen_result result \<Rightarrow> session \<Rightarrow> listen_result result \<times> session" where
  "debuggerListen out s =
     (case client s of
        Inl e \<Rightarrow> (Inl e, s)
      | Inr c \<Rightarrow> (out, issue (Listen (dmode s)) s))"

datatype conflict_result = NoConflict | Other jsval | Myself jsval

text \<open>
  The \<^verbatim>\<open>catch\<close> clauses of \<^verbatim>\<open>hasConflict\<close>:
  \<^verbatim>\<open>if (isConflictError(error)) return { with: who, message: error?.properties?.conflictText }
  throw error\<close>.
\<close>

definition catch_conflict :: "(jsval \<Rightarrow> conflict_result) \<Rightarrow> jsval \<Rightarrow> conflict_result result" where
  "catch_conflict who error =
     (case isConflictError error of
        Inl t \<Rightarrow> Inl t
      | Inr c \<Rightarrow>
          if c then Inr (who (conflictText_of error))
          else Inl error)"

text \<open>
  \<^verbatim>\<open>
    private async hasConflict(): Promise<ConflictResult> {
        try {
            await this.client.statelessClone.debuggerListeners(this.mode, this.terminalId, this.ideId, this.username)
        } catch (error: any) {
            if (isConflictError(error)) return { with: "other", message: error?.properties?.conflictText }
            throw error
        }
        try {
            await this.client.statelessClone.debuggerListeners(this.mode, this.terminalId, this.ideId, this.username)
        } catch (error: any) {
            if (isConflictError(error)) return { with: "myself", message: error?.properties?.conflictText }
            throw error
        }
        return { with: "none" }
    }
  \<close>
  \<^verbatim>\<open>hasConflict\<close> is an \<^verbatim>\<open>async\<close> function: it runs up to its first \<^verbatim>\<open>await\<close>
  when it is called (\<open>hasConflict_start\<close>: the guard and the first probe), and the
  rest when the first probe has settled (\<open>hasConflict_resume\<close>, whose argument
  \<open>first\<close> is what the first \<^verbatim>\<open>try\<close> block awaited: the error of the guard or the
  outcome of the probe). \<^verbatim>\<open>logout\<close> changes the instance between the two.
\<close>

definition hasConflict_start :: "jsval result \<Rightarrow> session \<Rightarrow> jsval result \<times> session" where
  "hasConflict_start probe1 s =
     (case client s of
        Inl e \<Rightarrow> (Inl e, s)
      | Inr c \<Rightarrow> (probe1, issue (Listeners (dmode s)) s))"

definition hasConflict_resume ::
  "jsval result \<Rightarrow> jsval result \<Rightarrow> session \<Rightarrow> conflict_result result \<times> session" where
  "hasConflict_resume first probe2 s =
     (case first of
        Inl error \<Rightarrow> (catch_conflict Other error, s)
      | Inr v \<Rightarrow>
          (case client s of
             Inl error \<Rightarrow> (catch_conflict Myself error, s)
           | Inr c \<Rightarrow>
               (let s1 = issue (Listeners (dmode s)) s in
                case probe2 of
                  Inl error \<Rightarrow> (catch_conflict Myself error, s1)
                | Inr w \<Rightarrow> (Inr NoConflict, s1))))"

definition hasConflict ::
  "jsval result \<Rightarrow> jsval result \<Rightarrow> session \<Rightarrow> conflict_result result \<times> session" where
  "hasConflict probe1 probe2 s =
     (case hasConflict_start probe1 s of
        (first, s1) \<Rightarrow> hasConflict_resume first probe2 s1)"

subsection \<open>Stopping\<close>

text \<open>
  \<^verbatim>\<open>
    this.active = false
    if (stopDebugger) {
        const c = this.client.statelessClone
        const running = await c.debuggerListeners("user", ...).catch(isConflictError)
        if (running) await this.stopListener()
    }
    this.notifier.fire(new TerminatedEvent())
  \<close>
  \<open>probe\<close> and \<open>del\<close> are how the listeners call and the delete-listener call
  settle. \<open>listener_running\<close> is the value of \<^verbatim>\<open>running\<close>, read for its truth
  value: that of the result of the listeners call, or what \<^verbatim>\<open>isConflictError\<close>
  makes of its rejection.
\<close>

definition listener_running :: "jsval result \<Rightarrow> bool result" where
  "listener_running probe =
     (case probe of Inl e \<Rightarrow> isConflictError e | Inr v \<Rightarrow> Inr (truthy v))"

definition stopDebugging ::
  "bool \<Rightarrow> jsval result \<Rightarrow> unit result \<Rightarrow> session \<Rightarrow> unit result \<times> session" where
  "stopDebugging stopDebugger probe del s =
     (let s0 = s\<lparr>active := False\<rparr> in
      if stopDebugger then
        (case client s0 of
           Inl e \<Rightarrow> (Inl e, s0)
         | Inr c \<Rightarrow>
             (let s1 = issue (Listeners User) s0 in
              case listener_running probe of
                Inl t \<Rightarrow> (Inl t, s1)
              | Inr running \<Rightarrow>
                  if running then
                    (case stopListener True del s1 of
                       (Inl e, s2) \<Rightarrow> (Inl e, s2)
                     | (Inr u, s2) \<Rightarrow> (Inr (), emit (Fire TerminatedEvent) s2))
                  else (Inr (), emit (Fire TerminatedEvent) s1)))
      else (Inr (), emit (Fire TerminatedEvent) s0))"

subsection \<open>A breakpoint stop\<close>

text \<open>
  The \<^verbatim>\<open>try\<close> block of \<^verbatim>\<open>onBreakpointReached\<close>:
  \<^verbatim>\<open>
    if (!this.attached)
        await this.client.debuggerAttach(this.mode, debuggee.DEBUGGEE_ID, this.username, true)
    this.attached = true
    await this.client.debuggerSaveSettings({})
    this.notifier.fire(new StoppedEvent("breakpoint", this.THREADID))
  \<close>
  \<open>att\<close> and \<open>sav\<close> are how the attach call and the save-settings call settle.
\<close>

definition onBreakpointReached_try ::
  "unit result \<Rightarrow> unit result \<Rightarrow> string \<Rightarrow> session \<Rightarrow> unit result \<times> session" where
  "onBreakpointReached_try att sav debuggee_id s =
     (case (if \<not> attached s then
              (case client s of
                 Inl e \<Rightarrow> (Inl e, s)
               | Inr c \<Rightarrow> (att, issue (Attach (dmode s) debuggee_id) s))
            else (Inr (), s)) of
        (Inl e, s1) \<Rightarrow> (Inl e, s1)
      | (Inr u, s1) \<Rightarrow>
          (let s2 = s1\<lparr>attached := True\<rparr> in
           case client s2 of
             Inl e \<Rightarrow> (Inl e, s2)
           | Inr c \<Rightarrow>
               (let s3 = issue SaveSettings s2 in
                case sav of
                  Inl e \<Rightarrow> (Inl e, s3)
                | Inr w \<Rightarrow> (Inr (), emit (Fire (StoppedEvent ''breakpoint'' THREADID)) s3))))"

text \<open>
  \<^verbatim>\<open>onBreakpointReached\<close>: on an exception of the block,
  \<^verbatim>\<open>await this.stopDebugging()\<close>, whose own exception leaves the function.
\<close>

definition onBreakpointReached ::
  "unit result \<Rightarrow> unit result \<Rightarrow> jsval result \<Rightarrow> unit result \<Rightarrow> string \<Rightarrow> session
     \<Rightarrow> unit result \<times> session" where
  "onBreakpointReached att sav probe del debuggee_id s =
     (case onBreakpointReached_try att sav debuggee_id s of
        (Inl error, s1) \<Rightarrow> stopDebugging True probe del s1
      | (Inr u, s1) \<Rightarrow> (Inr u, s1))"

subsection \<open>The listen loop\<close>

text \<open>
  One pass through the body of the loop issues at most one call of each kind, so its
  environment is one outcome per kind: how the long poll settles and whether another
  task cleared \<^verbatim>\<open>active\<close> while it was pending, and how the attach, save-settings,
  listeners and delete-listener calls and the prompt settle if the pass reaches them.
\<close>

record iteration =
  listen_out :: "listen_result result"
  stop_meanwhile :: bool
  attach_out :: "unit result"
  save_out :: "unit result"
  listeners_out :: "jsval result"
  delete_out :: "unit result"
  confirm_out :: "bool result"

text \<open>How a pass leaves the loop body.\<close>

datatype step = Continue | Break | Return | Throw jsval

text \<open>
  The \<^verbatim>\<open>try\<close> block of the loop body; \<open>Inl\<close> is the exception its \<^verbatim>\<open>catch\<close>
  clause receives. Another task can clear \<^verbatim>\<open>active\<close> only while the long poll is
  pending, that is when the guard let the call through.
  \<^verbatim>\<open>
    const debuggee = await this.debuggerListen()
    if (!debuggee || !this.active) continue
    if (isDebugListenerError(debuggee)) break
    await this.onBreakpointReached(debuggee)
  \<close>
\<close>

definition mainLoop_try :: "iteration \<Rightarrow> session \<Rightarrow> step result \<times> session" where
  "mainLoop_try it s =
     (case debuggerListen (listen_out it) s of
        (r, s0) \<Rightarrow>
          (let s1 = (if stop_meanwhile it \<and> \<not> killed s then s0\<lparr>active := False\<rparr> else s0) in
           case r of
             Inl e \<Rightarrow> (Inl e, s1)
           | Inr debuggee \<Rightarrow>
               if debuggee = LNothing \<or> \<not> active s1 then (Inr Continue, s1)
               else
                 (case debuggee of
                    LNothing \<Rightarrow> (Inr Continue, s1)
                  | LListenerError \<Rightarrow> (Inr Break, s1)
                  | LDebuggee d \<Rightarrow>
                      (case onBreakpointReached (attach_out it) (save_out it)
                              (listeners_out it) (delete_out it) d s1 of
                         (Inl e, s2) \<Rightarrow> (Inl e, s2)
                       | (Inr u, s2) \<Rightarrow> (Inr Continue, s2)))))"

text \<open>
  The \<^verbatim>\<open>catch\<close> clause of the loop body. The \<^verbatim>\<open>break\<close> statements in it leave
  the \<^verbatim>\<open>switch\<close>, not the loop: the pass ends and the loop condition is tested again.
  \<^verbatim>\<open>
    if (!this.active) return
    if (!isAdtError(error)) {
        this.ui.ShowError(`Error listening to debugger: ${caughtToString(error)}`)
    } else {
        const exceptionType = errorType(error)
        switch (exceptionType) {
            case "conflictNotification":
            case "conflictDetected":
                const txt = error?.properties?.conflictText || "Debugger terminated by another session/user"
                this.ui.ShowError(txt)
                await this.stopDebugging(false)
                break
            case ATTACHTIMEOUT:
                break
            default:
                const quit = await this.ui.Confirmator(`Error listening to debugger: ${caughtToString(error)} Close session?`)
                if (quit) await this.stopDebugging()
        }
    }
  \<close>
\<close>

definition mainLoop_catch :: "deps \<Rightarrow> iteration \<Rightarrow> jsval \<Rightarrow> session \<Rightarrow> step \<times> session" where
  "mainLoop_catch D it error s =
     (if \<not> active s then (Return, s)
      else if \<not> isAdtError D error then
        (Continue,
         emit (ShowError (JStr (''Error listening to debugger: '' @ caughtToString D error))) s)
      else
        (case errorType error of
           Inl t \<Rightarrow> (Throw t, s)
         | Inr exceptionType \<Rightarrow>
             if exceptionType = JStr ''conflictNotification''
                \<or> exceptionType = JStr ''conflictDetected'' then
               (let c = conflictText_of error;
                    txt = (if truthy c then c
                           else JStr ''Debugger terminated by another session/user'');
                    s1 = emit (ShowError txt) s
                in case stopDebugging False (listeners_out it) (delete_out it) s1 of
                     (Inl e, s2) \<Rightarrow> (Throw e, s2)
                   | (Inr u, s2) \<Rightarrow> (Continue, s2))
             else if exceptionType = JStr ATTACHTIMEOUT then (Continue, s)
             else
               (let s1 = emit (Confirmator (''Error listening to debugger: ''
                            @ caughtToString D error @ '' Close session?'')) s
                in case confirm_out it of
                     Inl e \<Rightarrow> (Throw e, s1)
                   | Inr quit \<Rightarrow>
                       if quit then
                         (case stopDebugging True (listeners_out it) (delete_out it) s1 of
                            (Inl e, s2) \<Rightarrow> (Throw e, s2)
                          | (Inr u, s2) \<Rightarrow> (Continue, s2))
                       else (Continue, s1))))"

definition mainLoop_body :: "deps \<Rightarrow> iteration \<Rightarrow> session \<Rightarrow> step \<times> session" where
  "mainLoop_body D it s =
     (case mainLoop_try it s of
        (Inl error, s1) \<Rightarrow> mainLoop_catch D it error s1
      | (Inr st, s1) \<Rightarrow> (st, s1))"

text \<open>
  How a run of the loop ends: it returned, it threw (the promise of \<^verbatim>\<open>mainLoop\<close> is
  rejected), or it is still running after the scripted passes, waiting for a long
  poll that has not settled.
\<close>

datatype loop_end = Returned | Threw jsval | Pending

text \<open>
  \<^verbatim>\<open>while (this.active) { ... }\<close> over a script of passes. When the script is used
  up and the loop goes on, it issues the next long poll (if the guard lets it) and
  waits.
\<close>

fun mainLoop_while :: "deps \<Rightarrow> iteration list \<Rightarrow> session \<Rightarrow> loop_end \<times> session" where
  "mainLoop_while D [] s =
     (if active s then (Pending, snd (debuggerListen (Inr LNothing) s)) else (Returned, s))"
| "mainLoop_while D (it # its) s =
     (if active s then
        (case mainLoop_body D it s of
           (Continue, s1) \<Rightarrow> mainLoop_while D its s1
         | (Break, s1) \<Rightarrow> (Returned, s1)
         | (Return, s1) \<Rightarrow> (Returned, s1)
         | (Throw e, s1) \<Rightarrow> (Threw e, s1))
      else (Returned, s))"

definition mainLoop :: "deps \<Rightarrow> iteration list \<Rightarrow> session \<Rightarrow> loop_end \<times> session" where
  "mainLoop D its s = mainLoop_while D its (s\<lparr>active := True\<rparr>)"

subsection \<open>Starting\<close>

text \<open>
  The environment of \<^verbatim>\<open>fireMainLoop\<close>: the two probes of the arbitration, the
  answer of the prompt, the delete-listener call, and the script of the loop it
  starts.
\<close>

record startup =
  probe1 :: "jsval result"
  probe2 :: "jsval result"
  confirm :: "bool result"
  delete :: "unit result"
  script :: "iteration list"

definition listening_error :: "deps \<Rightarrow> jsval \<Rightarrow> event" where
  "listening_error D error =
     ShowError (JStr (''Error listening to debugger: '' @ caughtToString D error))"

text \<open>
  \<^verbatim>\<open>fireMainLoop\<close>. The loop is started without \<^verbatim>\<open>await\<close>: the function returns
  \<^verbatim>\<open>true\<close> whatever the loop does later, and the final state holds what the loop did.
\<close>

definition fireMainLoop :: "deps \<Rightarrow> startup \<Rightarrow> session \<Rightarrow> bool \<times> session" where
  "fireMainLoop D E s =
     (case hasConflict (probe1 E) (probe2 E) s of
        (Inl error, s1) \<Rightarrow> (False, emit (listening_error D error) s1)
      | (Inr (Myself m), s1) \<Rightarrow>
          (case stopListener True (delete E) s1 of
             (Inl error, s2) \<Rightarrow> (False, emit (listening_error D error) s2)
           | (Inr u, s2) \<Rightarrow> (True, snd (mainLoop D (script E) s2)))
      | (Inr (Other m), s1) \<Rightarrow>
          (let s2 = emit (Confirmator
                      (to_string (if truthy m then m else JStr ''Debugger conflict detected'')
                       @ '' Take over debugging?'')) s1
           in case confirm E of
                Inl error \<Rightarrow> (False, emit (listening_error D error) s2)
              | Inr resp \<Rightarrow>
                  if resp then
                    (case stopListener False (delete E) s2 of
                       (Inl error, s3) \<Rightarrow> (False, emit (listening_error D error) s3)
                     | (Inr u, s3) \<Rightarrow> (True, snd (mainLoop D (script E) s3)))
                  else (False, s2))
      | (Inr NoConflict, s1) \<Rightarrow> (True, snd (mainLoop D (script E) s1)))"

subsection \<open>Logging out\<close>

text \<open>The environment of \<^verbatim>\<open>logout\<close>: \<^verbatim>\<open>client.loggedin\<close> and how its calls settle.\<close>

record teardown =
  td_probe1 :: "jsval result"
  td_probe2 :: "jsval result"
  td_delete :: "unit result"
  td_loggedin :: bool
  td_dropSession :: "unit result"
  td_logout :: "unit result"
  td_clone_logout :: "unit result"

text \<open>
  \<^verbatim>\<open>
    const ignore = () => undefined
    this.active = false
    this.attached = false
    if (this.killed) return
    const client = this.client
    const stop = this.hasConflict().then(r => { if (r.with === "myself") return this.stopListener().catch(ignore) }, ignore)
    const proms: Promise<any>[] = [stop]
    this.killed = true
    const logout = () => Promise.all([client.logout(), client.statelessClone.logout()])
    if (client.loggedin)
        proms.push(stop.then(() => client.dropSession(), ignore).then(logout, ignore))
    await Promise.all(proms)
  \<close>
  The call of \<^verbatim>\<open>hasConflict\<close> runs up to its first \<^verbatim>\<open>await\<close>; then \<^verbatim>\<open>killed\<close> is
  set; the rest of \<^verbatim>\<open>hasConflict\<close> and the reactions of the promises run after that.
  The promise \<^verbatim>\<open>stop\<close> is always fulfilled. In \<^verbatim>\<open>.then(logout, ignore)\<close> the
  handler \<^verbatim>\<open>ignore\<close> receives a rejection of the promise before it (the drop of the
  session), not one of \<^verbatim>\<open>logout\<close> itself. Both logout calls are issued before
  either settles; of two rejections the model reports that of the primary client.
\<close>

definition logout :: "teardown \<Rightarrow> session \<Rightarrow> unit result \<times> session" where
  "logout E s =
     (let s0 = s\<lparr>active := False, attached := False\<rparr> in
      if killed s0 then (Inr (), s0)
      else
        (case hasConflict_start (td_probe1 E) s0 of
           (first, s1) \<Rightarrow>
             (let s2 = s1\<lparr>killed := True\<rparr> in
              case hasConflict_resume first (td_probe2 E) s2 of
                (r, s3) \<Rightarrow>
                  (let s4 = (case r of
                               Inr (Myself m) \<Rightarrow> snd (stopListener True (td_delete E) s3)
                             | _ \<Rightarrow> s3)
                   in if td_loggedin E then
                        (let s5 = issue DropSession s4 in
                         case td_dropSession E of
                           Inl e \<Rightarrow> (Inr (), s5)
                         | Inr u \<Rightarrow>
                             (let s6 = issue CloneLogout (issue Logout s5) in
                              case td_logout E of
                                Inl e \<Rightarrow> (Inl e, s6)
                              | Inr v \<Rightarrow>
                                  (case td_clone_logout E of
                                     Inl e \<Rightarrow> (Inl e, s6)
                                   | Inr w \<Rightarrow> (Inr (), s6))))
                      else (Inr (), s4)))))"

subsection \<open>Outcomes of a remote call, and inputs for the examples\<close>

text \<open>A call succeeded; a call failed with an error that \<open>isConflictError\<close> accepts.\<close>

definition succeeded :: "'a result \<Rightarrow> bool" where
  "succeeded p = (case p of Inl e \<Rightarrow> False | Inr v \<Rightarrow> True)"

definition conflict_failure :: "'a result \<Rightarrow> bool" where
  "conflict_failure p = (case p of Inl e \<Rightarrow> isConflictError e = Inr True | Inr v \<Rightarrow> False)"

text \<open>
  An error of the ADT client with a property bag: the sub-type and the conflict text.
\<close>

definition conflict_error :: "string \<Rightarrow> string \<Rightarrow> jsval" where
  "conflict_error kind txt =
     JObj [(''properties'', JObj [(SUBTYPE, JStr kind), (''conflictText'', JStr txt)])]"

text \<open>The first listener of a process, for the connection \<open>dev100\<close>.\<close>

definition first_session :: session where
  "first_session =
     fst (new_DebugListener Map.empty
       \<lparr>arg_connId = ''dev100'', arg_client_username = ''DEVELOPER'',
        arg_terminalId = ''0A1B2C'', arg_username = [], arg_terminalMode = False,
        arg_ideId = ''F00D''\<rparr>)"

text \<open>Dependencies for the examples: objects are errors of the ADT client.\<close>

definition example_deps :: deps where
  "example_deps =
     \<lparr>isAdtError = (\<lambda>e. case e of JObj ps \<Rightarrow> True | _ \<Rightarrow> False),
      caughtToString = to_string\<rparr>"

text \<open>A pass of the loop in which every call succeeds and nothing is found.\<close>

definition quiet_pass :: iteration where
  "quiet_pass =
     \<lparr>listen_out = Inr LNothing, stop_meanwhile = False, attach_out = Inr (),
      save_out = Inr (), listeners_out = Inr JUndefined, delete_out = Inr (),
      confirm_out = Inr False\<rparr>"

text \<open>A pass in which the long poll fails because another session took the listener.\<close>

definition conflict_pass :: iteration where
  "conflict_pass =
     quiet_pass\<lparr>listen_out := Inl (conflict_error ''conflictDetected'' ''taken by ALICE'')\<rparr>"

text \<open>A pass in which a breakpoint is reached and the given calls settle as given.\<close>

definition breakpoint_pass :: "unit result \<Rightarrow> unit result \<Rightarrow> iteration" where
  "breakpoint_pass att sav =
     quiet_pass\<lparr>listen_out := Inr (LDebuggee ''D123''), attach_out := att, save_out := sav\<rparr>"

text \<open>
  A start in which the first probe reports a conflict held by BOB and the user
  declines to take over.
\<close>

definition declined_start :: startup where
  "declined_start =
     \<lparr>probe1 = Inl (conflict_error ''conflictNotification'' ''held by BOB''),
      probe2 = Inr JUndefined, confirm = Inr False, delete = Inr (), script = [quiet_pass]\<rparr>"

text \<open>
  A logout of a logged-in client in which every call succeeds but the logout of the
  primary client.
\<close>

definition failing_logout :: teardown where
  "failing_logout =
     \<lparr>td_probe1 = Inr JUndefined, td_probe2 = Inr JUndefined, td_delete = Inr (),
      td_loggedin = True, td_dropSession = Inr (),
      td_logout = Inl (JError ''Error'' ''ECONNRESET''), td_clone_logout = Inr ()\<rparr>"

text \<open>Is a remote call the attach call?\<close>

fun is_attach :: "rcall \<Rightarrow> bool" where
  "is_attach (Attach m d) = True"
| "is_attach c = False"

text \<open>
  From \<open>s\<close> to \<open>s'\<close> the trace was only extended, without an attach call, and
  \<open>s'\<close> is attached.
\<close>

definition attached_since :: "session \<Rightarrow> session \<Rightarrow> bool" where
  "attached_since s s' \<longleftrightarrow>
     attached s'
     \<and> take (length (trace s)) (trace s') = trace s
     \<and> filter is_attach (calls (events_since s s')) = []"

section \<open>Basic facts\<close>

lemmas effect_defs = issue_def emit_def events_since_def client_def

lemma errorType_not_Inl [simp]: "errorType err \<noteq> Inl t"
  by (simp add: errorType_def split: sum.splits)

lemma isConflictError_Disconnected [simp]: "isConflictError Disconnected = Inr False"
  by (simp add: isConflictError_def errorType_def errorType_try_def subType_of_def
      response_body_def opt_prop_def Disconnected_def TypeError_def)

lemma catch_conflict_Disconnected [simp]: "catch_conflict who Disconnected = Inl Disconnected"
  by (simp add: catch_conflict_def)

lemma first_session_simps [simp]:
  "killed first_session = False" "active first_session = False"
  "attached first_session = False" "trace first_session = []"
  "dmode first_session = User" "sessionNumber first_session = 1"
  by (simp_all add: first_session_def new_DebugListener_def counter_of_def)

lemma isConflictError_conflict_error [simp]:
  "isConflictError (conflict_error ''conflictDetected'' txt) = Inr True"
  "isConflictError (conflict_error ''conflictNotification'' txt) = Inr True"
  by (simp_all add: isConflictError_def errorType_def errorType_try_def subType_of_def
      response_body_def opt_prop_def conflict_error_def SUBTYPE_def)

lemma conflictText_of_conflict_error [simp]:
  "conflictText_of (conflict_error k txt) = JStr txt"
  by (simp add: conflictText_of_def conflict_error_def opt_prop_def SUBTYPE_def)

text \<open>\<open>has_match\<close> is the search for a substring.\<close>

lemma take_length_eq_iff: "take (length p) xs = p \<longleftrightarrow> (\<exists>b. xs = p @ b)"
  by (metis append_eq_conv_conj append_take_drop_id)

lemma has_match_iff: "has_match p s \<longleftrightarrow> (\<exists>a b. s = a @ p @ b)"
proof (induction s)
  case Nil
  then show ?case by auto
next
  case (Cons c cs)
  have "(\<exists>a b. c # cs = a @ p @ b) \<longleftrightarrow> (\<exists>b. c # cs = p @ b) \<or> (\<exists>a b. cs = a @ p @ b)"
  proof
    assume "\<exists>a b. c # cs = a @ p @ b"
    then obtain a b where ab: "c # cs = a @ p @ b" by blast
    show "(\<exists>b. c # cs = p @ b) \<or> (\<exists>a b. cs = a @ p @ b)"
    proof (cases a)
      case Nil
      then show ?thesis using ab by auto
    next
      case (Cons x a')
      then show ?thesis using ab by auto
    qed
  next
    assume "(\<exists>b. c # cs = p @ b) \<or> (\<exists>a b. cs = a @ p @ b)"
    then show "\<exists>a b. c # cs = a @ p @ b"
    proof
      assume "\<exists>b. c # cs = p @ b"
      then obtain b where "c # cs = [] @ p @ b" by auto
      then show ?thesis by blast
    next
      assume "\<exists>a b. cs = a @ p @ b"
      then obtain a b where "c # cs = (c # a) @ p @ b" by auto
      then show ?thesis by blast
    qed
  qed
  then show ?case
    using Cons.IH by (simp only: has_match.simps take_length_eq_iff)
qed

lemma has_match_prefix: "has_match p (p @ r)"
  by (cases p; cases r) simp_all

lemma errorType_conflict_error [simp]:
  "errorType (conflict_error k txt) = Inr (if k = [] then JUndefined else JStr k)"
  by (simp add: errorType_def errorType_try_def subType_of_def response_body_def opt_prop_def
      conflict_error_def TypeError_def)

lemma subType_of_absent:
  "subType_of JNull = JUndefined" "subType_of JUndefined = JUndefined"
  "map_of ps ''properties'' = None \<Longrightarrow> subType_of (JObj ps) = JUndefined"
  by (simp_all add: subType_of_def opt_prop_def)

lemma response_body_unreadable:
  "response_body JNull = Inl (TypeError ''Cannot read properties of null'')"
  "response_body JUndefined = Inl (TypeError ''Cannot read properties of undefined'')"
  "map_of ps ''response'' = None
     \<Longrightarrow> response_body (JObj ps) = Inl (TypeError ''Cannot read properties of undefined'')"
  by (simp_all add: response_body_def)

lemma onBreakpointReached_killed:
  "killed s \<Longrightarrow> fst (onBreakpointReached att sav probe del d s) = Inl Disconnected
     \<and> trace (snd (onBreakpointReached att sav probe del d s)) = trace s"
  by (simp add: onBreakpointReached_def onBreakpointReached_try_def stopDebugging_def client_def)

section \<open>The arbitration probe\<close>

text \<open>
  C1, as the code has it. On an instance that is not killed, \<open>hasConflict\<close> returns
  \<open>other\<close> iff the first probe fails with a conflict classification, and then it
  issues no second probe; it returns \<open>myself\<close> iff the first probe succeeds and the
  second fails with a conflict classification; it returns \<open>none\<close> iff both probes
  succeed; it throws iff the first probe fails without a conflict classification, or
  the first succeeds and the second fails without one.
\<close>

theorem hasConflict_attribution:
  "\<not> killed s \<Longrightarrow>
   ((\<exists>m. fst (hasConflict p1 p2 s) = Inr (Other m)) \<longleftrightarrow> conflict_failure p1) \<and>
   ((\<exists>m. fst (hasConflict p1 p2 s) = Inr (Myself m)) \<longleftrightarrow> succeeded p1 \<and> conflict_failure p2) \<and>
   (fst (hasConflict p1 p2 s) = Inr NoConflict \<longleftrightarrow> succeeded p1 \<and> succeeded p2) \<and>
   ((\<exists>e. fst (hasConflict p1 p2 s) = Inl e) \<longleftrightarrow>
      \<not> succeeded p1 \<and> \<not> conflict_failure p1
      \<or> succeeded p1 \<and> \<not> succeeded p2 \<and> \<not> conflict_failure p2) \<and>
   calls (events_since s (snd (hasConflict p1 p2 s))) =
     (if succeeded p1 then [Listeners (dmode s), Listeners (dmode s)]
      else [Listeners (dmode s)])"
  by (cases p1; cases p2)
     (auto simp: hasConflict_def hasConflict_start_def hasConflict_resume_def
        catch_conflict_def succeeded_def conflict_failure_def effect_defs split: sum.splits)

text \<open>
  C1 as stated fails. When both probes would fail with a conflict classification the
  result is \<open>other\<close>, not \<open>myself\<close>; when the first probe succeeds and the second
  fails with a conflict classification the result is \<open>myself\<close>, not \<open>none\<close>.
\<close>

theorem hasConflict_counterexample:
  "fst (hasConflict (Inl (conflict_error ''conflictDetected'' ''held by BOB''))
          (Inl (conflict_error ''conflictNotification'' ''held by BOB'')) first_session)
     = Inr (Other (JStr ''held by BOB''))
   \<and> fst (hasConflict (Inr JUndefined)
          (Inl (conflict_error ''conflictNotification'' ''held by BOB'')) first_session)
     = Inr (Myself (JStr ''held by BOB''))"
  by (simp add: hasConflict_def hasConflict_start_def hasConflict_resume_def
      catch_conflict_def effect_defs)

text \<open>The four outcomes of \<open>hasConflict_attribution\<close> on the first session.\<close>

theorem hasConflict_attribution_witness:
  "\<not> killed first_session
   \<and> conflict_failure (Inl (conflict_error ''conflictDetected'' ''held by BOB'') :: jsval result)
   \<and> (\<exists>m. fst (hasConflict (Inl (conflict_error ''conflictDetected'' ''held by BOB''))
               (Inr JUndefined) first_session) = Inr (Other m))
   \<and> succeeded (Inr JUndefined :: jsval result)
   \<and> (\<exists>m. fst (hasConflict (Inr JUndefined)
               (Inl (conflict_error ''conflictDetected'' ''held by BOB'')) first_session)
            = Inr (Myself m))
   \<and> fst (hasConflict (Inr JUndefined) (Inr JUndefined) first_session) = Inr NoConflict
   \<and> (\<exists>e. fst (hasConflict (Inl (JError ''Error'' ''ECONNRESET'')) (Inr JUndefined)
               first_session) = Inl e)"
proof -
  have k: "\<not> killed first_session" by simp
  have c: "conflict_failure
      (Inl (conflict_error ''conflictDetected'' ''held by BOB'') :: jsval result)"
    by (simp add: conflict_failure_def)
  have n: "\<not> conflict_failure (Inl (JError ''Error'' ''ECONNRESET'') :: jsval result)"
    by (simp add: conflict_failure_def isConflictError_def errorType_def errorType_try_def
        subType_of_def opt_prop_def response_body_def TypeError_def)
  have s: "succeeded (Inr JUndefined :: jsval result)"
    "\<not> succeeded (Inl (JError ''Error'' ''ECONNRESET'') :: jsval result)"
    by (simp_all add: succeeded_def)
  show ?thesis
    using hasConflict_attribution [OF k,
        of "Inl (conflict_error ''conflictDetected'' ''held by BOB'')" "Inr JUndefined"]
      hasConflict_attribution [OF k,
        of "Inr JUndefined" "Inl (conflict_error ''conflictDetected'' ''held by BOB'')"]
      hasConflict_attribution [OF k, of "Inr JUndefined" "Inr JUndefined"]
      hasConflict_attribution [OF k, of "Inl (JError ''Error'' ''ECONNRESET'')" "Inr JUndefined"]
      k c n s
    by simp
qed

section \<open>The guard of a killed instance\<close>

text \<open>
  C3, as the code has it. On a killed instance the listen call, the arbitration
  probe, a breakpoint stop (its attach and save-settings calls) and \<open>stopDebugging\<close>
  with \<open>stopDebugger = true\<close> fail with \<open>Disconnected\<close> and add nothing to the trace:
  no call reaches the client. \<open>stopListener\<close> does not go through the guard: it issues
  the delete-listener call and returns what that call returns.
\<close>

theorem killed_guard:
  "killed s \<Longrightarrow>
     debuggerListen out s = (Inl Disconnected, s) \<and>
     hasConflict p1 p2 s = (Inl Disconnected, s) \<and>
     fst (onBreakpointReached att sav probe del d s) = Inl Disconnected \<and>
     trace (snd (onBreakpointReached att sav probe del d s)) = trace s \<and>
     stopDebugging True probe del s = (Inl Disconnected, s\<lparr>active := False\<rparr>) \<and>
     fst (stopListener norestart del s) = del \<and>
     calls (events_since s (snd (stopListener norestart del s))) = [DeleteListener (dmode s)]"
  by (simp add: onBreakpointReached_killed debuggerListen_def hasConflict_def
      hasConflict_start_def hasConflict_resume_def stopDebugging_def stopListener_def
      effect_defs)

text \<open>
  C3 as stated fails for the delete-listener call: on a killed instance
  \<open>stopListener\<close> succeeds and the call is in the trace.
\<close>

theorem killed_guard_counterexample:
  "killed (first_session\<lparr>killed := True\<rparr>)
   \<and> fst (stopListener True (Inr ()) (first_session\<lparr>killed := True\<rparr>)) = Inr ()
   \<and> trace (snd (stopListener True (Inr ()) (first_session\<lparr>killed := True\<rparr>)))
       = [Call (DeleteListener User) False False]"
  by (simp add: stopListener_def effect_defs)

text \<open>\<open>killed_guard\<close> on the first session, killed.\<close>

theorem killed_guard_witness:
  "killed (first_session\<lparr>killed := True\<rparr>)
   \<and> debuggerListen (Inr (LDebuggee ''D123'')) (first_session\<lparr>killed := True\<rparr>)
       = (Inl Disconnected, first_session\<lparr>killed := True\<rparr>)
   \<and> hasConflict (Inr JUndefined) (Inr JUndefined) (first_session\<lparr>killed := True\<rparr>)
       = (Inl Disconnected, first_session\<lparr>killed := True\<rparr>)
   \<and> fst (onBreakpointReached (Inr ()) (Inr ()) (Inr JUndefined) (Inr ()) ''D123''
            (first_session\<lparr>killed := True\<rparr>)) = Inl Disconnected
   \<and> fst (stopDebugging True (Inr JUndefined) (Inr ()) (first_session\<lparr>killed := True\<rparr>))
       = Inl Disconnected
   \<and> calls (events_since (first_session\<lparr>killed := True\<rparr>)
        (snd (stopListener True (Inr ()) (first_session\<lparr>killed := True\<rparr>))))
       = [DeleteListener User]"
proof -
  have k: "killed (first_session\<lparr>killed := True\<rparr>)" by simp
  show ?thesis
    using killed_guard [OF k, of "Inr (LDebuggee ''D123'')" "Inr JUndefined" "Inr JUndefined"
        "Inr ()" "Inr ()" "Inr JUndefined" "Inr ()" "''D123''" True]
    by simp
qed

section \<open>Stopping and the terminated event\<close>

text \<open>
  C4, as the code has it. A call of \<open>stopDebugging\<close> with \<open>stopDebugger = true\<close>
  that returns fires exactly one \<open>terminated\<close> event, and one that throws fires none.
  It returns iff the instance is not killed and either no listener is found running
  (the listeners call returns a falsy value, or fails without a conflict
  classification) or one is found and the delete-listener call succeeds.
\<close>

theorem stopDebugging_terminated:
  "fired (events_since s (snd (stopDebugging True probe del s))) =
     (if succeeded (fst (stopDebugging True probe del s)) then [TerminatedEvent] else []) \<and>
   (succeeded (fst (stopDebugging True probe del s)) \<longleftrightarrow>
      \<not> killed s \<and>
      (listener_running probe = Inr False
       \<or> listener_running probe = Inr True \<and> succeeded del))"
  by (cases "listener_running probe"; cases del)
     (auto simp: stopDebugging_def stopListener_def succeeded_def effect_defs Let_def)

text \<open>
  C4 as stated fails when the teardown fails: the listeners call reports a conflict,
  the delete-listener call is rejected, \<open>stopDebugging\<close> throws that error and the
  trace holds the two calls and no event.
\<close>

theorem stopDebugging_terminated_counterexample:
  "fst (stopDebugging True (Inl (conflict_error ''conflictDetected'' ''held by BOB''))
          (Inl (JError ''Error'' ''ECONNRESET'')) first_session)
     = Inl (JError ''Error'' ''ECONNRESET'')
   \<and> trace (snd (stopDebugging True (Inl (conflict_error ''conflictDetected'' ''held by BOB''))
          (Inl (JError ''Error'' ''ECONNRESET'')) first_session))
     = [Call (Listeners User) False False, Call (DeleteListener User) False False]"
  by (simp add: stopDebugging_def stopListener_def listener_running_def effect_defs)

section \<open>The classifier\<close>

text \<open>
  C6, as the code has it. \<open>errorType\<close> never throws. It returns the sub-type field
  when that field is truthy. When the field is absent or falsy and the response body
  can be read, it returns the attach-timeout kind if the body's text matches the
  connection-timeout signature, and the field itself (\<open>undefined\<close> when absent)
  if not. When the field is absent or falsy and the body cannot be read, it returns
  \<open>undefined\<close>; so it does on \<open>null\<close>, on \<open>undefined\<close> and on an object with
  neither a property bag nor a response.
\<close>

theorem errorType_classifies:
  "(\<exists>v. errorType err = Inr v) \<and>
   (truthy (subType_of err) \<longrightarrow> errorType err = Inr (subType_of err)) \<and>
   (\<not> truthy (subType_of err) \<longrightarrow>
      (\<forall>body. response_body err = Inr body \<longrightarrow>
         errorType err =
           Inr (if has_match ''Connection timed out'' (to_string body)
                then JStr ATTACHTIMEOUT else subType_of err)) \<and>
      (\<forall>e. response_body err = Inl e \<longrightarrow> errorType err = Inr JUndefined)) \<and>
   errorType JNull = Inr JUndefined \<and>
   errorType JUndefined = Inr JUndefined \<and>
   (map_of ps ''properties'' = None \<and> map_of ps ''response'' = None
      \<longrightarrow> errorType (JObj ps) = Inr JUndefined)"
proof -
  have total: "\<exists>v. errorType err = Inr v"
    by (simp add: errorType_def split: sum.splits)
  have present: "truthy (subType_of err) \<longrightarrow> errorType err = Inr (subType_of err)"
    by (simp add: errorType_def errorType_try_def)
  have readable: "response_body x = Inr body \<Longrightarrow> \<not> truthy (subType_of x) \<Longrightarrow>
      errorType x = Inr (if has_match ''Connection timed out'' (to_string body)
                         then JStr ATTACHTIMEOUT else subType_of x)" for x body
    by (simp add: errorType_def errorType_try_def)
  have unreadable: "response_body x = Inl e \<Longrightarrow> \<not> truthy (subType_of x) \<Longrightarrow>
      errorType x = Inr JUndefined" for x e
    by (simp add: errorType_def errorType_try_def)
  have null: "errorType JNull = Inr JUndefined"
    by (rule unreadable [OF response_body_unreadable(1)]) (simp add: subType_of_absent)
  have undef: "errorType JUndefined = Inr JUndefined"
    by (rule unreadable [OF response_body_unreadable(2)]) (simp add: subType_of_absent)
  have bare: "map_of ps ''properties'' = None \<and> map_of ps ''response'' = None
      \<longrightarrow> errorType (JObj ps) = Inr JUndefined"
  proof
    assume a: "map_of ps ''properties'' = None \<and> map_of ps ''response'' = None"
    show "errorType (JObj ps) = Inr JUndefined"
      by (rule unreadable [OF response_body_unreadable(3)])
         (simp_all add: a subType_of_absent)
  qed
  show ?thesis
    using total present readable unreadable null undef bare by blast
qed

text \<open>
  C6 as stated fails on a sub-type field that is present and empty. With a body that
  matches the signature the result is the attach-timeout kind, not the field; with a
  body that does not match, the result is the empty string, not \<open>undefined\<close>.
\<close>

theorem errorType_counterexample:
  "subType_of (JObj [(''properties'', JObj [(SUBTYPE, JStr [])]),
                     (''response'', JObj [(''body'', JStr ''Connection timed out'')])]) = JStr []
   \<and> errorType (JObj [(''properties'', JObj [(SUBTYPE, JStr [])]),
                     (''response'', JObj [(''body'', JStr ''Connection timed out'')])])
       = Inr (JStr ''autoAttachTimeout'')
   \<and> subType_of (JObj [(''properties'', JObj [(SUBTYPE, JStr [])]),
                     (''response'', JObj [(''body'', JStr ''Bad Gateway'')])]) = JStr []
   \<and> errorType (JObj [(''properties'', JObj [(SUBTYPE, JStr [])]),
                     (''response'', JObj [(''body'', JStr ''Bad Gateway'')])])
       = Inr (JStr [])"
  by (simp add: errorType_def errorType_try_def subType_of_def response_body_def opt_prop_def
      ATTACHTIMEOUT_def)

text \<open>
  \<open>errorType_classifies\<close> on an error with a sub-type, on one with a timeout body
  only, and on \<open>null\<close>.
\<close>

theorem errorType_classifies_witness:
  "truthy (subType_of (conflict_error ''conflictDetected'' ''held by BOB''))
   \<and> errorType (conflict_error ''conflictDetected'' ''held by BOB'')
       = Inr (JStr ''conflictDetected'')
   \<and> \<not> truthy (subType_of
          (JObj [(''response'', JObj [(''body'', JStr ''Connection timed out'')])]))
   \<and> errorType (JObj [(''response'', JObj [(''body'', JStr ''Connection timed out'')])])
       = Inr (JStr ''autoAttachTimeout'')
   \<and> \<not> truthy (subType_of JNull)
   \<and> errorType JNull = Inr JUndefined"
proof -
  have a: "subType_of (conflict_error ''conflictDetected'' ''held by BOB'')
      = JStr ''conflictDetected''"
    by (simp add: subType_of_def conflict_error_def opt_prop_def)
  have b: "subType_of (JObj [(''response'', JObj [(''body'', JStr ''Connection timed out'')])])
      = JUndefined"
    by (simp add: subType_of_def opt_prop_def TypeError_def)
  have b': "response_body (JObj [(''response'', JObj [(''body'', JStr ''Connection timed out'')])])
      = Inr (JStr ''Connection timed out'')"
    by (simp add: response_body_def)
  have c: "subType_of JNull = JUndefined"
    by (simp add: subType_of_def opt_prop_def)
  have c': "response_body JNull = Inl (TypeError ''Cannot read properties of null'')"
    by (simp add: response_body_def)
  show ?thesis
    using errorType_classifies [of "conflict_error ''conflictDetected'' ''held by BOB''"]
      errorType_classifies
        [of "JObj [(''response'', JObj [(''body'', JStr ''Connection timed out'')])]"]
      errorType_classifies [of JNull]
    by (simp add: a b b' c c' ATTACHTIMEOUT_def)
qed

section \<open>Session numbers\<close>

lemma new_DebugListener_fields:
  "connId (fst (new_DebugListener m a)) = arg_connId a"
  "sessionNumber (fst (new_DebugListener m a)) = Suc (counter_of m (arg_connId a))"
  "snd (new_DebugListener m a) = m(arg_connId a \<mapsto> Suc (counter_of m (arg_connId a)))"
  by (simp_all add: new_DebugListener_def Let_def)

lemma counter_of_update:
  "counter_of (m(c' \<mapsto> n)) c = (if c = c' then n else counter_of m c)"
  by (simp add: counter_of_def)

lemma upt_Cons_shift: "a # [Suc a ..< Suc a + k] = [a ..< a + Suc k]"
  by (simp add: upt_conv_Cons)

lemma constructions_Cons:
  "fst (constructions m (a # as)) =
     fst (new_DebugListener m a) # fst (constructions (snd (new_DebugListener m a)) as)"
  by (simp split: prod.splits)

lemma numbers_Cons:
  "map sessionNumber (filter (\<lambda>s. connId s = c) (fst (constructions m (a # as)))) =
     (if arg_connId a = c then [Suc (counter_of m c)] else [])
     @ map sessionNumber
         (filter (\<lambda>s. connId s = c) (fst (constructions (snd (new_DebugListener m a)) as)))"
  unfolding constructions_Cons by (auto simp add: new_DebugListener_fields(1,2))

lemma constructions_numbers_from:
  "map sessionNumber (filter (\<lambda>s. connId s = c) (fst (constructions m as))) =
     [Suc (counter_of m c) ..<
        Suc (counter_of m c) + length (filter (\<lambda>a. arg_connId a = c) as)]"
proof (induction as arbitrary: m)
  case Nil
  then show ?case by simp
next
  case (Cons a as)
  let ?m' = "snd (new_DebugListener m a)"
  let ?k = "length (filter (\<lambda>a. arg_connId a = c) as)"
  let ?rest = "map sessionNumber (filter (\<lambda>s. connId s = c) (fst (constructions ?m' as)))"
  have ih: "?rest = [Suc (counter_of ?m' c) ..< Suc (counter_of ?m' c) + ?k]"
    by (rule Cons.IH)
  show ?case
  proof (cases "arg_connId a = c")
    case True
    have m': "counter_of ?m' c = Suc (counter_of m c)"
      using True by (simp add: new_DebugListener_fields(3) counter_of_update)
    have "map sessionNumber (filter (\<lambda>s. connId s = c) (fst (constructions m (a # as))))
        = [Suc (counter_of m c)] @ ?rest"
      using True by (simp only: numbers_Cons) simp
    also have "\<dots> = Suc (counter_of m c)
        # [Suc (Suc (counter_of m c)) ..< Suc (Suc (counter_of m c)) + ?k]"
      by (simp only: ih m' append_Cons append_Nil)
    also have "\<dots> = [Suc (counter_of m c) ..< Suc (counter_of m c) + Suc ?k]"
      by (rule upt_Cons_shift)
    also have "Suc ?k = length (filter (\<lambda>a. arg_connId a = c) (a # as))"
      using True by simp
    finally show ?thesis .
  next
    case False
    have m': "counter_of ?m' c = counter_of m c"
      using False by (simp add: new_DebugListener_fields(3) counter_of_update)
    have "map sessionNumber (filter (\<lambda>s. connId s = c) (fst (constructions m (a # as))))
        = ?rest"
      using False by (simp only: numbers_Cons) simp
    also have "\<dots> = [Suc (counter_of m c) ..< Suc (counter_of m c) + ?k]"
      by (simp only: ih m')
    also have "?k = length (filter (\<lambda>a. arg_connId a = c) (a # as))"
      using False by simp
    finally show ?thesis .
  qed
qed

lemma constructions_same_connId:
  "\<forall>a \<in> set bs. arg_connId a = c \<Longrightarrow>
      filter (\<lambda>s. connId s = c) (fst (constructions m bs)) = fst (constructions m bs)"
proof (induction bs arbitrary: m)
  case Nil
  then show ?case by simp
next
  case (Cons b bs)
  have "filter (\<lambda>s. connId s = c) (fst (constructions (snd (new_DebugListener m b)) bs))
      = fst (constructions (snd (new_DebugListener m b)) bs)"
    using Cons.prems by (intro Cons.IH) simp
  moreover have "connId (fst (new_DebugListener m b)) = c"
    using Cons.prems by (simp add: new_DebugListener_fields(1))
  ultimately show ?case
    unfolding constructions_Cons by simp
qed

text \<open>
  C7. From the start of the process (no counter yet), and for every sequence of
  constructions, the session numbers given to the listeners of a connection id are
  \<open>1, 2, \<dots>, k\<close> in the order of construction, where \<open>k\<close> is the number of
  constructions for that id: they are 1-based and strictly increasing. They are the
  numbers the same constructions get when all constructions for other ids are left
  out.
\<close>

theorem session_numbers_per_connection:
  "map sessionNumber (filter (\<lambda>s. connId s = c) (fst (constructions Map.empty as)))
     = [1 ..< Suc (length (filter (\<lambda>a. arg_connId a = c) as))]
   \<and> map sessionNumber (filter (\<lambda>s. connId s = c) (fst (constructions Map.empty as)))
     = map sessionNumber (fst (constructions Map.empty (filter (\<lambda>a. arg_connId a = c) as)))
   \<and> sorted_wrt (<) (map sessionNumber
       (filter (\<lambda>s. connId s = c) (fst (constructions Map.empty as))))"
proof -
  let ?own = "filter (\<lambda>a. arg_connId a = c) as"
  have e: "counter_of Map.empty c = 0" by (simp add: counter_of_def)
  have 1: "map sessionNumber (filter (\<lambda>s. connId s = c) (fst (constructions Map.empty as)))
     = [1 ..< Suc (length ?own)]"
    using constructions_numbers_from [of c Map.empty as] by (simp only: e) simp
  have "map sessionNumber (filter (\<lambda>s. connId s = c) (fst (constructions Map.empty ?own)))
     = [1 ..< Suc (length (filter (\<lambda>a. arg_connId a = c) ?own))]"
    using constructions_numbers_from [of c Map.empty ?own] by (simp only: e) simp
  moreover have "filter (\<lambda>s. connId s = c) (fst (constructions Map.empty ?own))
      = fst (constructions Map.empty ?own)"
    by (rule constructions_same_connId) simp
  ultimately have 2: "map sessionNumber (fst (constructions Map.empty ?own))
     = [1 ..< Suc (length ?own)]"
    by simp
  have 3: "sorted_wrt (<) [1 ..< Suc (length ?own)]"
    by (rule sorted_wrt_upt)
  show ?thesis
    by (simp only: 1 2 3)
qed

section \<open>The frame of stopping\<close>

text \<open>
  C10. \<open>stopDebugging\<close> changes \<open>active\<close> to false and adds to the trace, and
  changes no other field: \<open>attached\<close> and \<open>killed\<close> are as before. Every remote call
  it issues is issued with \<open>active\<close> already false. It throws iff
  \<open>stopDebugger\<close> is true and the guard throws, or the probe throws (the
  classifier throws on the rejection of the listeners call; a rejection that the
  classifier takes is absorbed), or the teardown runs and throws. If it throws,
  \<open>active\<close> is false all the same and no \<open>terminated\<close> event has been fired.
\<close>

theorem stopDebugging_frame:
  "snd (stopDebugging b probe del s)
     = s\<lparr>active := False,
         trace := trace s @ events_since s (snd (stopDebugging b probe del s))\<rparr>
   \<and> (\<forall>c a t. Call c a t \<in> set (events_since s (snd (stopDebugging b probe del s))) \<longrightarrow> \<not> a)
   \<and> (\<not> succeeded (fst (stopDebugging b probe del s)) \<longleftrightarrow>
        b \<and> (killed s
             \<or> \<not> succeeded (listener_running probe)
             \<or> listener_running probe = Inr True \<and> \<not> succeeded del))
   \<and> (\<not> succeeded (fst (stopDebugging b probe del s)) \<longrightarrow>
        \<not> active (snd (stopDebugging b probe del s))
        \<and> fired (events_since s (snd (stopDebugging b probe del s))) = [])"
proof -
  let ?r = "stopDebugging b probe del s"
  have frame: "snd ?r = s\<lparr>active := False, trace := trace s @ events_since s (snd ?r)\<rparr>"
    by (cases "listener_running probe"; cases del)
       (auto simp: stopDebugging_def stopListener_def effect_defs Let_def)
  have order: "\<forall>c a t. Call c a t \<in> set (events_since s (snd ?r)) \<longrightarrow> \<not> a"
    by (cases "listener_running probe"; cases del)
       (auto simp: stopDebugging_def stopListener_def effect_defs Let_def)
  have throws: "\<not> succeeded (fst ?r) \<longleftrightarrow>
        b \<and> (killed s
             \<or> \<not> succeeded (listener_running probe)
             \<or> listener_running probe = Inr True \<and> \<not> succeeded del)"
    by (cases "listener_running probe"; cases del)
       (auto simp: stopDebugging_def stopListener_def succeeded_def effect_defs Let_def)
  have silent: "\<not> succeeded (fst ?r) \<longrightarrow>
        \<not> active (snd ?r) \<and> fired (events_since s (snd ?r)) = []"
    by (cases "listener_running probe"; cases del)
       (auto simp: stopDebugging_def stopListener_def succeeded_def effect_defs Let_def)
  show ?thesis
    using frame order throws silent by blast
qed

text \<open>
  \<open>stopDebugging_frame\<close> on an active, attached session whose teardown is rejected.
\<close>

theorem stopDebugging_frame_witness:
  "\<not> succeeded (fst (stopDebugging True (Inr (JBool True)) (Inl (JError ''Error'' ''ECONNRESET''))
        (first_session\<lparr>active := True, attached := True\<rparr>)))
   \<and> snd (stopDebugging True (Inr (JBool True)) (Inl (JError ''Error'' ''ECONNRESET''))
        (first_session\<lparr>active := True, attached := True\<rparr>))
      = first_session\<lparr>active := False, attached := True,
          trace := [Call (Listeners User) False True, Call (DeleteListener User) False True]\<rparr>
   \<and> Call (Listeners User) False True \<in> set (events_since (first_session\<lparr>active := True, attached := True\<rparr>)
        (snd (stopDebugging True (Inr (JBool True)) (Inl (JError ''Error'' ''ECONNRESET''))
        (first_session\<lparr>active := True, attached := True\<rparr>))))
   \<and> fired (events_since (first_session\<lparr>active := True, attached := True\<rparr>)
        (snd (stopDebugging True (Inr (JBool True)) (Inl (JError ''Error'' ''ECONNRESET''))
        (first_session\<lparr>active := True, attached := True\<rparr>)))) = []"
proof -
  let ?s = "first_session\<lparr>active := True, attached := True\<rparr>"
  let ?r = "stopDebugging True (Inr (JBool True)) (Inl (JError ''Error'' ''ECONNRESET'')) ?s"
  have f: "\<not> succeeded (fst ?r)"
    by (simp add: stopDebugging_def stopListener_def listener_running_def succeeded_def effect_defs)
  have e: "events_since ?s (snd ?r) = [Call (Listeners User) False True, Call (DeleteListener User) False True]"
    by (simp add: stopDebugging_def stopListener_def listener_running_def effect_defs)
  show ?thesis
    using stopDebugging_frame [of True "Inr (JBool True)" "Inl (JError ''Error'' ''ECONNRESET'')" ?s] f e
    by simp
qed

section \<open>Declining a takeover\<close>

text \<open>
  C8. When the arbitration probe attributes the conflict to \<open>other\<close> with a
  conflict message (a truthy \<open>message\<close>) and the user answers \<open>false\<close>,
  \<open>fireMainLoop\<close> returns \<open>false\<close>; what it did is the first probe and one prompt,
  whose text is the conflict message followed by the question, so it contains the
  message; it issued no listen call and no delete-listener call.
\<close>

theorem fireMainLoop_declined:
  assumes "fst (hasConflict (probe1 E) (probe2 E) s) = Inr (Other m)"
    and "truthy m"
    and "confirm E = Inr False"
  shows "fst (fireMainLoop D E s) = False
    \<and> events_since s (snd (fireMainLoop D E s))
        = [Call (Listeners (dmode s)) (active s) (attached s),
           Confirmator (to_string m @ '' Take over debugging?'')]
    \<and> has_match (to_string m) (to_string m @ '' Take over debugging?'')
    \<and> calls (events_since s (snd (fireMainLoop D E s))) = [Listeners (dmode s)]"
proof -
  obtain r s1 where h: "hasConflict (probe1 E) (probe2 E) s = (r, s1)"
    by (cases "hasConflict (probe1 E) (probe2 E) s")
  have r: "r = Inr (Other m)" using assms(1) h by simp
  have s1: "s1 = issue (Listeners (dmode s)) s"
    using h r
    by (auto simp: hasConflict_def hasConflict_start_def hasConflict_resume_def
        catch_conflict_def client_def Let_def split: sum.splits if_splits)
  have "fireMainLoop D E s
      = (False, emit (Confirmator (to_string m @ '' Take over debugging?'')) s1)"
    using h r assms(2,3) by (simp add: fireMainLoop_def)
  then show ?thesis
    by (simp add: s1 effect_defs has_match_prefix)
qed

text \<open>\<open>fireMainLoop_declined\<close> on the conflict held by BOB.\<close>

theorem fireMainLoop_declined_witness:
  "fst (hasConflict (probe1 declined_start) (probe2 declined_start) first_session)
     = Inr (Other (JStr ''held by BOB''))
   \<and> truthy (JStr ''held by BOB'')
   \<and> confirm declined_start = Inr False
   \<and> fst (fireMainLoop example_deps declined_start first_session) = False
   \<and> events_since first_session (snd (fireMainLoop example_deps declined_start first_session))
       = [Call (Listeners User) False False, Confirmator ''held by BOB Take over debugging?'']"
proof -
  have h: "fst (hasConflict (probe1 declined_start) (probe2 declined_start) first_session)
     = Inr (Other (JStr ''held by BOB''))"
    by (simp add: declined_start_def hasConflict_def hasConflict_start_def
        hasConflict_resume_def catch_conflict_def effect_defs)
  have t: "truthy (JStr ''held by BOB'')" by simp
  have c: "confirm declined_start = Inr False" by (simp add: declined_start_def)
  show ?thesis
    using fireMainLoop_declined [OF h t c, of example_deps] h c by simp
qed

section \<open>A conflict during the long poll\<close>

text \<open>
  C5. The loop is at the start of a pass on an active instance; the long poll is
  issued and fails, while the instance stays active, with an error of the ADT client
  that \<open>errorType\<close> classifies as \<open>conflictNotification\<close> or \<open>conflictDetected\<close>.
  Then the loop shows the conflict text of the error (or the generic message) in the
  UI, runs \<open>stopDebugging\<close> with \<open>stopDebugger = false\<close>, which fires \<open>terminated\<close>
  and issues no remote call, and returns: whatever passes \<open>its\<close> the script still
  holds, no further listen call is issued.
\<close>

theorem mainLoop_conflict_exits:
  assumes "active s" and "\<not> killed s"
    and "listen_out it = Inl e" and "\<not> stop_meanwhile it"
    and "isAdtError D e"
    and "errorType e = Inr (JStr ''conflictNotification'')
         \<or> errorType e = Inr (JStr ''conflictDetected'')"
  shows "mainLoop_while D (it # its) s =
    (Returned,
     s\<lparr>active := False,
       trace := trace s @
         [Call (Listen (dmode s)) True (attached s),
          ShowError (if truthy (conflictText_of e) then conflictText_of e
                     else JStr ''Debugger terminated by another session/user''),
          Fire TerminatedEvent]\<rparr>)"
proof -
  let ?s1 = "issue (Listen (dmode s)) s"
  have t: "mainLoop_try it s = (Inl e, ?s1)"
    using assms(2,3,4) by (simp add: mainLoop_try_def debuggerListen_def client_def)
  have a: "active ?s1" using assms(1) by (simp add: issue_def)
  let ?s2 = "s\<lparr>active := False,
       trace := trace s @
         [Call (Listen (dmode s)) True (attached s),
          ShowError (if truthy (conflictText_of e) then conflictText_of e
                     else JStr ''Debugger terminated by another session/user''),
          Fire TerminatedEvent]\<rparr>"
  have c: "mainLoop_catch D it e ?s1 = (Continue, ?s2)"
    using assms(1,5,6)
    by (auto simp: mainLoop_catch_def stopDebugging_def effect_defs Let_def)
  have b: "mainLoop_body D it s = (Continue, ?s2)"
    by (simp add: mainLoop_body_def t c)
  have w: "mainLoop_while D its ?s2 = (Returned, ?s2)"
    by (cases its) simp_all
  show ?thesis
    using assms(1) b w by simp
qed

text \<open>\<open>mainLoop_conflict_exits\<close> on a conflict in the first pass of three.\<close>

theorem mainLoop_conflict_exits_witness:
  "active (first_session\<lparr>active := True\<rparr>)
   \<and> \<not> killed (first_session\<lparr>active := True\<rparr>)
   \<and> listen_out conflict_pass = Inl (conflict_error ''conflictDetected'' ''taken by ALICE'')
   \<and> \<not> stop_meanwhile conflict_pass
   \<and> isAdtError example_deps (conflict_error ''conflictDetected'' ''taken by ALICE'')
   \<and> errorType (conflict_error ''conflictDetected'' ''taken by ALICE'')
       = Inr (JStr ''conflictDetected'')
   \<and> mainLoop_while example_deps [conflict_pass, quiet_pass, quiet_pass]
        (first_session\<lparr>active := True\<rparr>)
       = (Returned,
          first_session\<lparr>active := False,
            trace := [Call (Listen User) True False, ShowError (JStr ''taken by ALICE''),
                      Fire TerminatedEvent]\<rparr>)"
proof -
  have 1: "active (first_session\<lparr>active := True\<rparr>)" by simp
  have 2: "\<not> killed (first_session\<lparr>active := True\<rparr>)" by simp
  have 3: "listen_out conflict_pass = Inl (conflict_error ''conflictDetected'' ''taken by ALICE'')"
    by (simp add: conflict_pass_def)
  have 4: "\<not> stop_meanwhile conflict_pass"
    by (simp add: conflict_pass_def quiet_pass_def)
  have 5: "isAdtError example_deps (conflict_error ''conflictDetected'' ''taken by ALICE'')"
    by (simp add: example_deps_def conflict_error_def)
  have 6: "errorType (conflict_error ''conflictDetected'' ''taken by ALICE'')
       = Inr (JStr ''conflictNotification'')
     \<or> errorType (conflict_error ''conflictDetected'' ''taken by ALICE'')
       = Inr (JStr ''conflictDetected'')"
    by simp
  show ?thesis
    using mainLoop_conflict_exits [OF 1 2 3 4 5 6, of "[quiet_pass, quiet_pass]"] 3 4 5
    by simp
qed

section \<open>Logging out\<close>

text \<open>
  When does \<open>logout\<close> throw? Exactly when the instance was not killed, the client
  is logged in, the drop of the session succeeds and one of the two logout calls is
  rejected.
\<close>

lemma logout_throws_iff:
  "(\<exists>e. fst (logout E s) = Inl e) \<longleftrightarrow>
     \<not> killed s \<and> td_loggedin E \<and> succeeded (td_dropSession E)
     \<and> (\<not> succeeded (td_logout E) \<or> \<not> succeeded (td_clone_logout E))"
  by (cases "hasConflict_start (td_probe1 E) (s\<lparr>active := False, attached := False\<rparr>)";
      cases "td_dropSession E"; cases "td_logout E"; cases "td_clone_logout E")
     (auto simp: logout_def succeeded_def Let_def split: prod.splits)

text \<open>
  The calls of \<open>logout\<close>: \<open>killed\<close> is set before \<open>hasConflict\<close> resumes, so the
  second probe and the delete-listener call are never issued.
\<close>

lemma logout_never_tears_down:
  "\<not> killed s \<Longrightarrow>
     calls (events_since s (snd (logout E s))) =
       Listeners (dmode s)
       # (if td_loggedin E then
            DropSession # (if succeeded (td_dropSession E) then [Logout, CloneLogout] else [])
          else [])"
  by (cases "td_probe1 E"; cases "td_dropSession E"; cases "td_logout E";
      cases "td_clone_logout E")
     (auto simp: logout_def hasConflict_start_def hasConflict_resume_def catch_conflict_def
        succeeded_def effect_defs Let_def split: sum.splits conflict_result.splits)

text \<open>
  C2 fails on the code: with a logged-in client whose session drop succeeds and whose
  logout is rejected, \<open>logout\<close> throws the error of the logout call.
\<close>

theorem logout_rejects:
  "fst (logout failing_logout first_session) = Inl (JError ''Error'' ''ECONNRESET'')
   \<and> calls (trace (snd (logout failing_logout first_session)))
       = [Listeners User, DropSession, Logout, CloneLogout]"
  by (simp add: logout_def failing_logout_def hasConflict_start_def hasConflict_resume_def
      effect_defs)

section \<open>A failed breakpoint stop\<close>

text \<open>
  Facts on \<open>attached_since\<close>: every function of the listener but \<open>logout\<close> keeps
  an attached instance attached and issues no attach call on it.
\<close>

lemma calls_append [simp]: "calls (xs @ ys) = calls xs @ calls ys"
  by (induction xs rule: calls.induct) simp_all

lemma fired_append [simp]: "fired (xs @ ys) = fired xs @ fired ys"
  by (induction xs rule: fired.induct) simp_all

lemma attached_since_attached: "attached_since s s' \<Longrightarrow> attached s'"
  by (simp add: attached_since_def)

lemma attached_since_trans:
  assumes "attached_since s s'" and "attached_since s' s''"
  shows "attached_since s s''"
proof -
  obtain xs where xs: "trace s' = trace s @ xs"
    using assms(1) by (metis attached_since_def append_take_drop_id)
  obtain ys where ys: "trace s'' = trace s' @ ys"
    using assms(2) by (metis attached_since_def append_take_drop_id)
  show ?thesis
    using assms xs ys by (simp add: attached_since_def events_since_def)
qed

lemma attached_since_active: "attached s \<Longrightarrow> attached_since s (s\<lparr>active := b\<rparr>)"
  by (simp add: attached_since_def events_since_def)

lemma attached_since_emit: "attached s \<Longrightarrow> calls [e] = [] \<Longrightarrow> attached_since s (emit e s)"
  by (simp add: attached_since_def events_since_def emit_def)

lemma attached_since_issue:
  "attached s \<Longrightarrow> \<not> is_attach c \<Longrightarrow> attached_since s (issue c s)"
  by (simp add: attached_since_def events_since_def issue_def)

lemma stopDebugging_attached_since:
  "attached s \<Longrightarrow> attached_since s (snd (stopDebugging b probe del s))"
  by (cases "listener_running probe"; cases del)
     (auto simp: attached_since_def stopDebugging_def stopListener_def effect_defs Let_def)

lemma onBreakpointReached_attached_since:
  "attached s \<Longrightarrow> attached_since s (snd (onBreakpointReached att sav probe del d s))"
  by (cases "listener_running probe"; cases del; cases sav)
     (auto simp: attached_since_def onBreakpointReached_def onBreakpointReached_try_def
        stopDebugging_def stopListener_def effect_defs Let_def)

lemma snd_case_result [simp]:
  "snd (case p of (Inl e, s2) \<Rightarrow> (f e, s2) | (Inr u, s2) \<Rightarrow> (g u, s2)) = snd p"
  by (simp split: prod.splits sum.splits)

lemma attached_since_refl: "attached s \<Longrightarrow> attached_since s s"
  by (simp add: attached_since_def events_since_def)

lemma emit_stopDebugging_attached_since:
  assumes "attached s" and "calls [x] = []"
  shows "attached_since s (snd (stopDebugging b probe del (emit x s)))"
proof (rule attached_since_trans)
  show "attached_since s (emit x s)"
    using assms by (rule attached_since_emit)
  show "attached_since (emit x s) (snd (stopDebugging b probe del (emit x s)))"
    using assms(1) by (intro stopDebugging_attached_since) (simp add: emit_def)
qed

lemma mainLoop_catch_attached_since:
  assumes "attached s"
  shows "attached_since s (snd (mainLoop_catch D it error s))"
  using assms
  by (auto simp: mainLoop_catch_def Let_def attached_since_emit attached_since_refl
      emit_stopDebugging_attached_since split: sum.splits)

lemma mainLoop_try_attached_since:
  assumes "attached s"
  shows "attached_since s (snd (mainLoop_try it s))"
proof (cases "killed s")
  case True
  then show ?thesis
    using assms
    by (simp add: mainLoop_try_def debuggerListen_def client_def attached_since_refl
        split: sum.splits)
next
  case False
  let ?s1 = "if stop_meanwhile it then (issue (Listen (dmode s)) s)\<lparr>active := False\<rparr>
             else issue (Listen (dmode s)) s"
  have 1: "attached_since s ?s1"
    using assms by (simp add: attached_since_def events_since_def issue_def)
  have 2: "attached_since s (snd (onBreakpointReached a b c d' x ?s1))" for a b c d' x
    by (rule attached_since_trans [OF 1 onBreakpointReached_attached_since])
       (rule attached_since_attached [OF 1])
  show ?thesis
    using False 1 2
    by (auto simp: mainLoop_try_def debuggerListen_def client_def Let_def
        split: sum.splits listen_result.splits)
qed

lemma mainLoop_body_attached_since:
  assumes "attached s"
  shows "attached_since s (snd (mainLoop_body D it s))"
proof (cases "mainLoop_try it s")
  case (Pair r s1)
  have 1: "attached_since s s1"
    using mainLoop_try_attached_since [OF assms, of it] Pair by simp
  show ?thesis
  proof (cases r)
    case (Inl e)
    have "attached_since s1 (snd (mainLoop_catch D it e s1))"
      by (rule mainLoop_catch_attached_since) (rule attached_since_attached [OF 1])
    then show ?thesis
      using Pair Inl 1 by (simp add: mainLoop_body_def attached_since_trans)
  next
    case (Inr st)
    then show ?thesis using Pair 1 by (simp add: mainLoop_body_def)
  qed
qed

lemma mainLoop_while_attached_since:
  "attached s \<Longrightarrow> attached_since s (snd (mainLoop_while D its s))"
proof (induction its arbitrary: s)
  case Nil
  then show ?case
    by (simp add: debuggerListen_def client_def attached_since_refl attached_since_issue)
next
  case (Cons it its)
  obtain st s1 where b: "mainLoop_body D it s = (st, s1)"
    by (cases "mainLoop_body D it s")
  have 1: "attached_since s s1"
    using mainLoop_body_attached_since [OF Cons.prems, of D it] b by simp
  have 2: "attached_since s1 (snd (mainLoop_while D its s1))"
    by (rule Cons.IH) (rule attached_since_attached [OF 1])
  show ?case
    using Cons.prems b 1 attached_since_trans [OF 1 2]
    by (cases st) (simp_all add: attached_since_refl)
qed

lemma mainLoop_attached_since:
  assumes "attached s"
  shows "attached_since s (snd (mainLoop D its s))"
proof -
  have "attached_since s (s\<lparr>active := True\<rparr>)"
    using assms by (rule attached_since_active)
  moreover have "attached_since (s\<lparr>active := True\<rparr>) (snd (mainLoop_while D its (s\<lparr>active := True\<rparr>)))"
    using assms by (intro mainLoop_while_attached_since) simp
  ultimately show ?thesis
    unfolding mainLoop_def by (rule attached_since_trans)
qed


lemma attached_since_no_attach:
  "attached_since s s' \<Longrightarrow> filter is_attach (calls (events_since s s')) = []"
  by (simp add: attached_since_def)

text \<open>
  C9. On an instance that is not killed, let the attach call succeed (or the
  instance be attached already) and the save-settings call fail. Then the \<open>try\<close>
  block of \<open>onBreakpointReached\<close> ends with that error in a state where \<open>attached\<close>
  is true; the save-settings call was issued with \<open>attached\<close> already true;
  \<open>stopDebugging\<close> runs from that state (its listeners probe is in the trace) and
  leaves \<open>attached\<close> true and \<open>active\<close> false; no \<open>stopped\<close> event is fired, the
  only event being the \<open>terminated\<close> of a \<open>stopDebugging\<close> that returns; and a
  later breakpoint stop on the resulting state, alone or in any later run of the
  loop, issues no attach call.
\<close>

theorem onBreakpointReached_save_fails:
  fixes s :: session and att sav :: "unit result" and probe :: "jsval result"
    and del :: "unit result" and d :: string
  defines "s1 \<equiv> snd (onBreakpointReached_try att sav d s)"
    and "s' \<equiv> snd (onBreakpointReached att sav probe del d s)"
  assumes "\<not> killed s" and "attached s \<or> succeeded att" and "sav = Inl e"
  shows "fst (onBreakpointReached_try att sav d s) = Inl e
    \<and> s1 = s\<lparr>attached := True,
              trace := trace s
                @ (if attached s then [] else [Call (Attach (dmode s) d) (active s) False])
                @ [Call SaveSettings (active s) True]\<rparr>
    \<and> onBreakpointReached att sav probe del d s = stopDebugging True probe del s1
    \<and> attached s' \<and> \<not> active s'
    \<and> Listeners User \<in> set (calls (events_since s s'))
    \<and> fired (events_since s s')
        = (if succeeded (fst (onBreakpointReached att sav probe del d s))
           then [TerminatedEvent] else [])
    \<and> filter is_attach
        (calls (events_since s' (snd (onBreakpointReached att' sav' probe' del' d' s')))) = []
    \<and> filter is_attach (calls (events_since s' (snd (mainLoop D its s')))) = []"
proof -
  have t: "onBreakpointReached_try att sav d s =
      (Inl e, s\<lparr>attached := True,
              trace := trace s
                @ (if attached s then [] else [Call (Attach (dmode s) d) (active s) False])
                @ [Call SaveSettings (active s) True]\<rparr>)"
    using assms(3,4,5)
    by (cases att) (auto simp: onBreakpointReached_try_def succeeded_def effect_defs)
  have s1: "s1 = s\<lparr>attached := True,
              trace := trace s
                @ (if attached s then [] else [Call (Attach (dmode s) d) (active s) False])
                @ [Call SaveSettings (active s) True]\<rparr>"
    by (simp add: s1_def t)
  have r: "onBreakpointReached att sav probe del d s = stopDebugging True probe del s1"
    by (simp add: onBreakpointReached_def t s1)
  have a: "attached s' \<and> \<not> active s'"
    unfolding s'_def r
    by (cases "listener_running probe"; cases del)
       (auto simp: s1 stopDebugging_def stopListener_def effect_defs Let_def)
  have l: "Listeners User \<in> set (calls (events_since s s'))"
    unfolding s'_def r using assms(3)
    by (cases "listener_running probe"; cases del)
       (auto simp: s1 stopDebugging_def stopListener_def effect_defs Let_def)
  have f: "fired (events_since s s')
        = (if succeeded (fst (onBreakpointReached att sav probe del d s))
           then [TerminatedEvent] else [])"
    unfolding s'_def r using assms(3)
    by (cases "listener_running probe"; cases del)
       (auto simp: s1 stopDebugging_def stopListener_def succeeded_def effect_defs Let_def)
  have n1: "filter is_attach
        (calls (events_since s' (snd (onBreakpointReached att' sav' probe' del' d' s')))) = []"
    using a by (intro attached_since_no_attach onBreakpointReached_attached_since) simp
  have n2: "filter is_attach (calls (events_since s' (snd (mainLoop D its s')))) = []"
    using a by (intro attached_since_no_attach mainLoop_attached_since) simp
  show ?thesis
    using t s1 r a l f n1 n2 by simp
qed

text \<open>
  \<open>onBreakpointReached_save_fails\<close> on a first stop whose save-settings call is
  rejected, followed by a run of the loop that reaches a second breakpoint.
\<close>

theorem onBreakpointReached_save_fails_witness:
  "\<not> killed (first_session\<lparr>active := True\<rparr>)
   \<and> succeeded (Inr () :: unit result)
   \<and> snd (onBreakpointReached (Inr ()) (Inl (JError ''Error'' ''ECONNRESET'')) (Inr JUndefined)
        (Inr ()) ''D123'' (first_session\<lparr>active := True\<rparr>))
      = first_session\<lparr>active := False, attached := True,
          trace := [Call (Attach User ''D123'') True False, Call SaveSettings True True,
                    Call (Listeners User) False True, Fire TerminatedEvent]\<rparr>
   \<and> filter is_attach (calls (events_since
        (snd (onBreakpointReached (Inr ()) (Inl (JError ''Error'' ''ECONNRESET''))
           (Inr JUndefined) (Inr ()) ''D123'' (first_session\<lparr>active := True\<rparr>)))
        (snd (mainLoop example_deps [breakpoint_pass (Inr ()) (Inr ())]
           (snd (onBreakpointReached (Inr ()) (Inl (JError ''Error'' ''ECONNRESET''))
              (Inr JUndefined) (Inr ()) ''D123'' (first_session\<lparr>active := True\<rparr>))))))) = []
   \<and> calls (trace (snd (mainLoop example_deps [breakpoint_pass (Inr ()) (Inr ())]
           (snd (onBreakpointReached (Inr ()) (Inl (JError ''Error'' ''ECONNRESET''))
              (Inr JUndefined) (Inr ()) ''D123'' (first_session\<lparr>active := True\<rparr>))))))
      = [Attach User ''D123'', SaveSettings, Listeners User, Listen User, SaveSettings,
         Listen User]"
proof -
  let ?s = "first_session\<lparr>active := True\<rparr>"
  have 1: "\<not> killed ?s" by simp
  have 2: "attached ?s \<or> succeeded (Inr () :: unit result)" by (simp add: succeeded_def)
  have 3: "(Inl (JError ''Error'' ''ECONNRESET'') :: unit result) = Inl (JError ''Error'' ''ECONNRESET'')"
    by simp
  have v: "snd (onBreakpointReached (Inr ()) (Inl (JError ''Error'' ''ECONNRESET'')) (Inr JUndefined)
        (Inr ()) ''D123'' ?s)
      = first_session\<lparr>active := False, attached := True,
          trace := [Call (Attach User ''D123'') True False, Call SaveSettings True True,
                    Call (Listeners User) False True, Fire TerminatedEvent]\<rparr>"
    by (simp add: onBreakpointReached_def onBreakpointReached_try_def stopDebugging_def
        listener_running_def effect_defs)
  have m: "calls (trace (snd (mainLoop example_deps [breakpoint_pass (Inr ()) (Inr ())]
       (first_session\<lparr>active := False, attached := True,
          trace := [Call (Attach User ''D123'') True False, Call SaveSettings True True,
                    Call (Listeners User) False True, Fire TerminatedEvent]\<rparr>))))
      = [Attach User ''D123'', SaveSettings, Listeners User, Listen User, SaveSettings,
         Listen User]"
    by (simp add: mainLoop_def mainLoop_body_def mainLoop_try_def debuggerListen_def
        onBreakpointReached_def onBreakpointReached_try_def breakpoint_pass_def quiet_pass_def
        effect_defs)
  show ?thesis
    using onBreakpointReached_save_fails [OF 1 2 3, where probe = "Inr JUndefined"
        and del = "Inr ()" and d = "''D123''" and D = example_deps
        and its = "[breakpoint_pass (Inr ()) (Inr ())]"] 2 v m
    by simp
qed

end
